theory Spec2Isabelle
  imports Main
begin

section \<open>The message graph of \<^verbatim>\<open>graph/graph.go\<close>\<close>

text \<open>
  The package builds a graph of named steps, compiles it into a runnable handle and
  walks it from the entry point to the node named \<^verbatim>\<open>END\<close>. The embedding follows
  the source function by function.

  \<^item> A Go \<^verbatim>\<open>error\<close> is a value with a message and, when made by \<^verbatim>\<open>fmt.Errorf\<close>
    with \<^verbatim>\<open>%w\<close>, the error it wraps. \<^verbatim>\<open>nil\<close> is \<open>None\<close> of \<open>go_error option\<close>.
  \<^item> The state type \<^verbatim>\<open>T\<close> is the type variable \<open>'s\<close>, the context the type
    variable \<open>'c\<close>. A step is a function of both that returns the pair the Go
    function returns; the value of a func variable may also be \<^verbatim>\<open>nil\<close>, and
    calling it then panics, so the field holds an option. A step with effects on
    the world outside is covered by reading \<open>'s\<close> as the state together with
    that world.
  \<^item> \<^verbatim>\<open>*MessageGraph[T]\<close> is modelled by the value it points to, with the node
    map allocated as \<^verbatim>\<open>NewMessageGraph\<close> allocates it; the mutators return the
    updated graph.
  \<^item> The \<^verbatim>\<open>for\<close> loop of \<^verbatim>\<open>Invoke\<close> has no bound and runs forever on a cycle of
    succeeding steps, so \<open>Invoke\<close> returns an option: \<open>None\<close> is the run that
    never returns.
\<close>

subsection \<open>Errors\<close>

datatype go_error =
    ErrorString string
  | WrapError string go_error

fun Error :: "go_error \<Rightarrow> string" where
  "Error (ErrorString s) = s"
| "Error (WrapError msg err) = msg"

fun Unwrap :: "go_error \<Rightarrow> go_error option" where
  "Unwrap (ErrorString s) = None"
| "Unwrap (WrapError msg err) = Some err"

text \<open>\<^verbatim>\<open>errors.Is\<close>: the target is the error itself or one in its chain.\<close>

fun errors_Is :: "go_error \<Rightarrow> go_error \<Rightarrow> bool" where
  "errors_Is (ErrorString s) target = (ErrorString s = target)"
| "errors_Is (WrapError msg err) target =
     (WrapError msg err = target \<or> errors_Is err target)"

definition END :: string where
  "END = ''END''"

definition ErrEntryPointNotSet :: go_error where
  "ErrEntryPointNotSet = ErrorString ''entry point not set''"

definition ErrNodeNotFound :: go_error where
  "ErrNodeNotFound = ErrorString ''node not found''"

definition ErrNoOutgoingEdge :: go_error where
  "ErrNoOutgoingEdge = ErrorString ''no outgoing edge found for node''"

text \<open>\<^verbatim>\<open>fmt.Errorf("%w: %s", err, name)\<close>\<close>

definition Errorf_w_s :: "go_error \<Rightarrow> string \<Rightarrow> go_error" where
  "Errorf_w_s err name = WrapError (Error err @ '': '' @ name) err"

text \<open>\<^verbatim>\<open>fmt.Errorf("error in node %s: %w", name, err)\<close>\<close>

definition Errorf_error_in_node :: "string \<Rightarrow> go_error \<Rightarrow> go_error" where
  "Errorf_error_in_node name err =
     WrapError (''error in node '' @ name @ '': '' @ Error err) err"

subsection \<open>Nodes, edges, the graph\<close>

type_synonym ('c, 's) step = "'c \<Rightarrow> 's \<Rightarrow> 's \<times> go_error option"

record ('c, 's) Node =
  Name :: string
  Function :: "('c, 's) step option"

record Edge =
  From :: string
  To :: string

record ('c, 's) MessageGraph =
  nodes :: "string \<rightharpoonup> ('c, 's) Node"
  edges :: "Edge list"
  entryPoint :: string

definition AddNode ::
  "('c, 's) MessageGraph \<Rightarrow> string \<Rightarrow> ('c, 's) step option \<Rightarrow> ('c, 's) MessageGraph" where
  "AddNode g name fn = g\<lparr>nodes := (nodes g)(name \<mapsto> \<lparr>Name = name, Function = fn\<rparr>)\<rparr>"

definition AddEdge :: "('c, 's) MessageGraph \<Rightarrow> string \<Rightarrow> string \<Rightarrow> ('c, 's) MessageGraph" where
  "AddEdge g from to = g\<lparr>edges := edges g @ [\<lparr>From = from, To = to\<rparr>]\<rparr>"

definition SetEntryPoint :: "('c, 's) MessageGraph \<Rightarrow> string \<Rightarrow> ('c, 's) MessageGraph" where
  "SetEntryPoint g name = g\<lparr>entryPoint := name\<rparr>"

definition NewMessageGraph :: "('c, 's) MessageGraph" where
  "NewMessageGraph =
     AddNode \<lparr>nodes = Map.empty, edges = [], entryPoint = []\<rparr> END
       (Some (\<lambda>ctx state. (state, None)))"

subsection \<open>Compile\<close>

record ('c, 's) Runnable =
  graph :: "('c, 's) MessageGraph"

definition Compile :: "('c, 's) MessageGraph \<Rightarrow> go_error + ('c, 's) Runnable" where
  "Compile g = (if entryPoint g = [] then Inl ErrEntryPointNotSet else Inr \<lparr>graph = g\<rparr>)"

subsection \<open>Invoke\<close>

text \<open>
  What a call of \<open>Invoke\<close> that comes back gives: the pair \<^verbatim>\<open>(T, error)\<close>, or the
  panic of calling a nil func.
\<close>

datatype 's result = Return 's "go_error option" | Panic

text \<open>
  The inner \<^verbatim>\<open>for _, edge := range r.graph.edges\<close>: the values of \<^verbatim>\<open>currentNode\<close> and
  \<^verbatim>\<open>foundNext\<close> after it.
\<close>

fun scan_edges :: "Edge list \<Rightarrow> string \<Rightarrow> string \<times> bool" where
  "scan_edges [] currentNode = (currentNode, False)"
| "scan_edges (edge # rest) currentNode =
     (if From edge = currentNode then (To edge, True) else scan_edges rest currentNode)"

text \<open>
  One pass through the body of the outer loop: it leaves the function (\<open>Stop\<close>,
  by \<^verbatim>\<open>break\<close> and the final \<^verbatim>\<open>return state, nil\<close>, by one of the three error
  returns, or by the panic) or goes round again with a new current node and state.
\<close>

datatype 's flow = Next string 's | Stop "'s result"

definition Invoke_body :: "('c, 's) MessageGraph \<Rightarrow> 'c \<Rightarrow> string \<Rightarrow> 's \<Rightarrow> 's flow" where
  "Invoke_body g ctx currentNode state =
     (if currentNode = END then Stop (Return state None)
      else case nodes g currentNode of
        None \<Rightarrow> Stop (Return state (Some (Errorf_w_s ErrNodeNotFound currentNode)))
      | Some node \<Rightarrow>
          (case Function node of
             None \<Rightarrow> Stop Panic
           | Some fn \<Rightarrow>
               (case fn ctx state of
                  (state', Some err) \<Rightarrow>
                    Stop (Return state' (Some (Errorf_error_in_node currentNode err)))
                | (state', None) \<Rightarrow>
                    (case scan_edges (edges g) currentNode of
                       (currentNode', True) \<Rightarrow> Next currentNode' state'
                     | (currentNode', False) \<Rightarrow>
                         Stop (Return state'
                           (Some (Errorf_w_s ErrNoOutgoingEdge currentNode')))))))"

partial_function (option) Invoke_loop ::
  "('c, 's) MessageGraph \<Rightarrow> 'c \<Rightarrow> string \<Rightarrow> 's \<Rightarrow> 's result option" where
  "Invoke_loop g ctx currentNode state =
     (case Invoke_body g ctx currentNode state of
        Next currentNode' state' \<Rightarrow> Invoke_loop g ctx currentNode' state'
      | Stop res \<Rightarrow> Some res)"

declare Invoke_loop.simps [code]

definition Invoke :: "('c, 's) Runnable \<Rightarrow> 'c \<Rightarrow> 's \<Rightarrow> 's result option" where
  "Invoke r ctx state = Invoke_loop (graph r) ctx (entryPoint (graph r)) state"

subsection \<open>The run of the loop, pass by pass\<close>

text \<open>
  \<open>iterations g ctx k currentNode state\<close> is the current node and the state at the
  top of the outer loop after \<open>k\<close> complete passes that started from
  \<open>currentNode\<close> and \<open>state\<close>; it is \<open>None\<close> when the function has left the loop
  before. The execution of \<open>Invoke\<close> reaches a node with a state when some
  number of passes from the entry point and the input gives that pair.
\<close>

fun iterations ::
  "('c, 's) MessageGraph \<Rightarrow> 'c \<Rightarrow> nat \<Rightarrow> string \<Rightarrow> 's \<Rightarrow> (string \<times> 's) option" where
  "iterations g ctx 0 currentNode state = Some (currentNode, state)"
| "iterations g ctx (Suc k) currentNode state =
     (case Invoke_body g ctx currentNode state of
        Next currentNode' state' \<Rightarrow> iterations g ctx k currentNode' state'
      | Stop res \<Rightarrow> None)"

subsection \<open>Sequences of calls on a graph under construction\<close>

text \<open>
  A caller builds a graph by calling the three mutators on the value that
  \<open>NewMessageGraph\<close> returned, any number of times in any order.
\<close>

datatype ('c, 's) call =
    Call_AddNode string "('c, 's) step option"
  | Call_AddEdge string string
  | Call_SetEntryPoint string

fun perform :: "('c, 's) MessageGraph \<Rightarrow> ('c, 's) call \<Rightarrow> ('c, 's) MessageGraph" where
  "perform g (Call_AddNode name fn) = AddNode g name fn"
| "perform g (Call_AddEdge from to) = AddEdge g from to"
| "perform g (Call_SetEntryPoint name) = SetEntryPoint g name"

fun sets_entry_point :: "('c, 's) call \<Rightarrow> bool" where
  "sets_entry_point (Call_SetEntryPoint name) = True"
| "sets_entry_point c = False"

definition build :: "('c, 's) call list \<Rightarrow> ('c, 's) MessageGraph" where
  "build calls = foldl perform NewMessageGraph calls"

subsection \<open>Linear chains\<close>

text \<open>
  \<open>linear_chain g currentNode chain\<close>: from \<open>currentNode\<close> the graph is the chain
  of the named steps of \<open>chain\<close>, in this order, and then \<open>END\<close>. Each name is
  registered with its step, has an outgoing edge, and all its outgoing edges
  lead to the next name of the chain (no branching).
\<close>

fun chain_start :: "(string \<times> ('c, 's) step) list \<Rightarrow> string" where
  "chain_start [] = END"
| "chain_start ((name, fn) # rest) = name"

fun linear_chain ::
  "('c, 's) MessageGraph \<Rightarrow> string \<Rightarrow> (string \<times> ('c, 's) step) list \<Rightarrow> bool" where
  "linear_chain g currentNode [] = (currentNode = END)"
| "linear_chain g currentNode ((name, fn) # rest) =
     (currentNode = name \<and> name \<noteq> END \<and>
      map_option Function (nodes g name) = Some (Some fn) \<and>
      (\<exists>e \<in> set (edges g). From e = name) \<and>
      (\<forall>e \<in> set (edges g). From e = name \<longrightarrow> To e = chain_start rest) \<and>
      linear_chain g (chain_start rest) rest)"

text \<open>
  The steps of a list applied in order to the threaded state, as long as they succeed:
  the reading of "applies each node's step in edge order" that \<open>Invoke\<close> is
  compared with.
\<close>

fun steps_in_order :: "'c \<Rightarrow> ('c, 's) step list \<Rightarrow> 's \<Rightarrow> 's \<times> go_error option" where
  "steps_in_order ctx [] state = (state, None)"
| "steps_in_order ctx (fn # fns) state =
     (case fn ctx state of
        (state', None) \<Rightarrow> steps_in_order ctx fns state'
      | (state', Some err) \<Rightarrow> (state', Some err))"

subsection \<open>The graphs of the test suite\<close>

text \<open>
  The cases of \<^verbatim>\<open>TestMessageGraph\<close> in \<^verbatim>\<open>graph/graph_test.go\<close>, built with the
  calls the tests make; the state is a list of strings, the context is
  \<^verbatim>\<open>context.Background()\<close>, here the unit value.
\<close>

definition simple_graph :: "(unit, string list) MessageGraph" where
  "simple_graph =
     SetEntryPoint
       (AddEdge
         (AddEdge
           (AddNode
             (AddNode NewMessageGraph
                ''node1'' (Some (\<lambda>ctx state. (state @ [''Node 1''], None))))
             ''node2'' (Some (\<lambda>ctx state. (state @ [''Node 2''], None))))
           ''node1'' ''node2'')
         ''node2'' END)
       ''node1''"

definition entry_point_not_set_graph :: "(unit, string list) MessageGraph" where
  "entry_point_not_set_graph =
     AddNode NewMessageGraph ''node1'' (Some (\<lambda>ctx state. (state, None)))"

definition node_not_found_graph :: "(unit, string list) MessageGraph" where
  "node_not_found_graph =
     SetEntryPoint
       (AddEdge
         (AddNode NewMessageGraph ''node1'' (Some (\<lambda>ctx state. (state, None))))
         ''node1'' ''node2'')
       ''node1''"

definition no_outgoing_edge_graph :: "(unit, string list) MessageGraph" where
  "no_outgoing_edge_graph =
     SetEntryPoint
       (AddNode NewMessageGraph ''node1'' (Some (\<lambda>ctx state. (state, None))))
       ''node1''"

definition error_in_node_graph :: "(unit, string list) MessageGraph" where
  "error_in_node_graph =
     SetEntryPoint
       (AddEdge
         (AddNode NewMessageGraph
            ''node1'' (Some (\<lambda>ctx state. ([], Some (ErrorString ''node error'')))))
         ''node1'' END)
       ''node1''"

section \<open>Properties\<close>

subsection \<open>The errors that \<open>Invoke\<close> makes\<close>

lemma errors_Is_refl: "errors_Is err err"
  by (cases err) simp_all

lemma errors_Is_Errorf_w_s: "errors_Is (Errorf_w_s err name) err"
  by (simp add: Errorf_w_s_def errors_Is_refl)

lemma errors_Is_Errorf_error_in_node: "errors_Is (Errorf_error_in_node name err) err"
  by (simp add: Errorf_error_in_node_def errors_Is_refl)

lemma Unwrap_Errorf_w_s: "Unwrap (Errorf_w_s err name) = Some err"
  by (simp add: Errorf_w_s_def)

lemma Error_node_not_found:
  "Error (Errorf_w_s ErrNodeNotFound name) = ''node not found: '' @ name"
  by (simp add: Errorf_w_s_def ErrNodeNotFound_def)

lemma Error_no_outgoing_edge:
  "Error (Errorf_w_s ErrNoOutgoingEdge name) = ''no outgoing edge found for node: '' @ name"
  by (simp add: Errorf_w_s_def ErrNoOutgoingEdge_def)

lemma Error_error_in_node:
  "Error (Errorf_error_in_node name err) = ''error in node '' @ name @ '': '' @ Error err"
  by (simp add: Errorf_error_in_node_def)

subsection \<open>Unfolding the loop\<close>

lemma Invoke_loop_Stop:
  "Invoke_body g ctx cur st = Stop res \<Longrightarrow> Invoke_loop g ctx cur st = Some res"
  by (subst Invoke_loop.simps) simp

lemma Invoke_loop_Next:
  "Invoke_body g ctx cur st = Next cur' st' \<Longrightarrow>
   Invoke_loop g ctx cur st = Invoke_loop g ctx cur' st'"
  by (subst Invoke_loop.simps) simp

lemma iterations_Invoke_loop:
  "iterations g ctx k cur st = Some (cur', st') \<Longrightarrow>
   Invoke_loop g ctx cur st = Invoke_loop g ctx cur' st'"
proof (induction k arbitrary: cur st)
  case 0
  then show ?case by simp
next
  case (Suc k)
  then obtain n s where b: "Invoke_body g ctx cur st = Next n s"
    and it: "iterations g ctx k n s = Some (cur', st')"
    by (auto split: flow.splits)
  from Suc.IH [OF it] Invoke_loop_Next [OF b] show ?case by simp
qed

text \<open>A run that returns has left the loop in some pass.\<close>

lemma Invoke_loop_Some_D:
  "Invoke_loop g ctx cur st = Some res \<Longrightarrow>
   \<exists>k cur' st'. iterations g ctx k cur st = Some (cur', st') \<and>
     Invoke_body g ctx cur' st' = Stop res"
proof (induction rule: Invoke_loop.raw_induct [rotated 1, consumes 1])
  case (1 loop g ctx cur st res)
  show ?case
  proof (cases "Invoke_body g ctx cur st")
    case (Next n s)
    with 1(2) have "loop g ctx n s = Some res" by simp
    from 1(1) [OF this] obtain k cur' st' where
      it: "iterations g ctx k n s = Some (cur', st')"
      and b: "Invoke_body g ctx cur' st' = Stop res"
      by blast
    from Next it have "iterations g ctx (Suc k) cur st = Some (cur', st')" by simp
    with b show ?thesis by blast
  next
    case (Stop r)
    with 1(2) have "r = res" by simp
    with Stop have "iterations g ctx 0 cur st = Some (cur, st) \<and>
      Invoke_body g ctx cur st = Stop res"
      by simp
    then show ?thesis by blast
  qed
qed

lemma Invoke_loop_Some_iff:
  "Invoke_loop g ctx cur st = Some res \<longleftrightarrow>
   (\<exists>k cur' st'. iterations g ctx k cur st = Some (cur', st') \<and>
     Invoke_body g ctx cur' st' = Stop res)"
proof
  assume "Invoke_loop g ctx cur st = Some res"
  then show "\<exists>k cur' st'. iterations g ctx k cur st = Some (cur', st') \<and>
     Invoke_body g ctx cur' st' = Stop res" by (rule Invoke_loop_Some_D)
next
  assume "\<exists>k cur' st'. iterations g ctx k cur st = Some (cur', st') \<and>
     Invoke_body g ctx cur' st' = Stop res"
  then obtain k cur' st' where it: "iterations g ctx k cur st = Some (cur', st')"
    and b: "Invoke_body g ctx cur' st' = Stop res" by blast
  from iterations_Invoke_loop [OF it] Invoke_loop_Stop [OF b]
  show "Invoke_loop g ctx cur st = Some res" by simp
qed

text \<open>Two graphs with the same loop body have the same runs.\<close>

lemma iterations_cong:
  assumes "\<And>cur st. Invoke_body g ctx cur st = Invoke_body g' ctx cur st"
  shows "iterations g ctx k cur st = iterations g' ctx k cur st"
  by (induction k arbitrary: cur st) (simp_all add: assms split: flow.splits)

lemma Invoke_loop_cong:
  assumes "\<And>cur st. Invoke_body g ctx cur st = Invoke_body g' ctx cur st"
  shows "Invoke_loop g ctx cur st = Invoke_loop g' ctx cur st"
proof -
  have it: "iterations g ctx k cur st = iterations g' ctx k cur st" for k
    by (rule iterations_cong) (rule assms)
  have eq: "Invoke_loop g ctx cur st = Some res \<longleftrightarrow> Invoke_loop g' ctx cur st = Some res"
    for res
    unfolding Invoke_loop_Some_iff it assms ..
  show ?thesis
  proof (cases "Invoke_loop g ctx cur st")
    case None
    have "Invoke_loop g' ctx cur st = None"
    proof (rule ccontr)
      assume "Invoke_loop g' ctx cur st \<noteq> None"
      then obtain res where "Invoke_loop g' ctx cur st = Some res" by auto
      with eq [of res] None show False by simp
    qed
    with None show ?thesis by simp
  next
    case (Some res)
    with eq [of res] show ?thesis by simp
  qed
qed

subsection \<open>Successful passes\<close>

lemma scan_edges_no_branching:
  "\<exists>e \<in> set es. From e = name \<Longrightarrow> \<forall>e \<in> set es. From e = name \<longrightarrow> To e = nxt \<Longrightarrow>
   scan_edges es name = (nxt, True)"
  by (induction es) auto

lemma Invoke_body_success:
  assumes "cur \<noteq> END" and "map_option Function (nodes g cur) = Some (Some fn)"
    and "fn ctx st = (st', None)"
  shows "Invoke_body g ctx cur st =
    (case scan_edges (edges g) cur of
       (cur', True) \<Rightarrow> Next cur' st'
     | (cur', False) \<Rightarrow> Stop (Return st' (Some (Errorf_w_s ErrNoOutgoingEdge cur'))))"
  using assms by (auto simp: Invoke_body_def split: option.splits)

lemma Invoke_loop_linear_chain:
  "linear_chain g cur chain \<Longrightarrow> steps_in_order ctx (map snd chain) st = (st', None) \<Longrightarrow>
   Invoke_loop g ctx cur st = Some (Return st' None)"
proof (induction chain arbitrary: cur st)
  case Nil
  then have "Invoke_body g ctx cur st = Stop (Return st' None)"
    by (simp add: Invoke_body_def)
  then show ?case by (rule Invoke_loop_Stop)
next
  case (Cons p rest)
  obtain name fn where p: "p = (name, fn)" by (cases p)
  obtain s e where fn: "fn ctx st = (s, e)" by (cases "fn ctx st")
  from Cons.prems(2) p fn have e: "e = None"
    and run: "steps_in_order ctx (map snd rest) s = (st', None)"
    by (auto split: option.splits)
  from Cons.prems(1) p have cur: "cur = name" "name \<noteq> END"
    and node: "map_option Function (nodes g name) = Some (Some fn)"
    and ex: "\<exists>e \<in> set (edges g). From e = name"
    and all: "\<forall>e \<in> set (edges g). From e = name \<longrightarrow> To e = chain_start rest"
    and chain: "linear_chain g (chain_start rest) rest"
    by simp_all
  from scan_edges_no_branching [OF ex all]
  have "Invoke_body g ctx name st = Next (chain_start rest) s"
    using Invoke_body_success [OF cur(2) node, of ctx st s] fn e by simp
  from Invoke_loop_Next [OF this] Cons.IH [OF chain run] cur show ?case by simp
qed

subsection \<open>The entry point under the mutators\<close>

lemma entryPoint_perform:
  "\<not> sets_entry_point c \<Longrightarrow> entryPoint (perform g c) = entryPoint g"
  by (cases c) (simp_all add: AddNode_def AddEdge_def)

lemma entryPoint_foldl_perform:
  "\<forall>c \<in> set calls. \<not> sets_entry_point c \<Longrightarrow>
   entryPoint (foldl perform g calls) = entryPoint g"
  by (induction calls arbitrary: g) (simp_all add: entryPoint_perform)

lemma entryPoint_NewMessageGraph: "entryPoint NewMessageGraph = []"
  by (simp add: NewMessageGraph_def AddNode_def)

subsection \<open>Graphs with the same loop body\<close>

lemma Invoke_body_AddNode_END:
  "Invoke_body (AddNode g END fn) ctx cur st = Invoke_body g ctx cur st"
proof (cases "cur = END")
  case True
  then show ?thesis by (simp add: Invoke_body_def)
next
  case False
  then have n: "nodes (AddNode g END fn) cur = nodes g cur"
    by (simp add: AddNode_def)
  have e: "edges (AddNode g END fn) = edges g"
    by (simp add: AddNode_def)
  show ?thesis unfolding Invoke_body_def n e ..
qed

lemma scan_edges_append:
  "scan_edges (es @ es') cur =
     (if \<exists>e \<in> set es. From e = cur then scan_edges es cur else scan_edges es' cur)"
  by (induction es) simp_all

lemma scan_edges_none:
  "\<forall>e \<in> set es. From e \<noteq> cur \<Longrightarrow> scan_edges es cur = (cur, False)"
  by (induction es) simp_all

lemma scan_edges_find:
  "scan_edges es cur =
     (case find (\<lambda>e. From e = cur) es of
        Some e \<Rightarrow> (To e, True)
      | None \<Rightarrow> (cur, False))"
  by (induction es) simp_all

lemma scan_edges_AddEdge:
  assumes "\<exists>e \<in> set (edges g). From e = from"
  shows "scan_edges (edges (AddEdge g from to)) cur = scan_edges (edges g) cur"
proof (cases "cur = from")
  case True
  with assms show ?thesis by (simp add: AddEdge_def scan_edges_append)
next
  case False
  then show ?thesis by (simp add: AddEdge_def scan_edges_append scan_edges_none)
qed

lemma Invoke_body_AddEdge:
  assumes "\<exists>e \<in> set (edges g). From e = from"
  shows "Invoke_body (AddEdge g from to) ctx cur st = Invoke_body g ctx cur st"
proof -
  have n: "nodes (AddEdge g from to) = nodes g" by (simp add: AddEdge_def)
  have e: "scan_edges (edges (AddEdge g from to)) cur = scan_edges (edges g) cur"
    by (rule scan_edges_AddEdge) (rule assms)
  show ?thesis unfolding Invoke_body_def n e ..
qed

subsection \<open>Leaving the loop\<close>

lemma iterations_Suc_last:
  "iterations g ctx (Suc k) cur st =
     (case iterations g ctx k cur st of
        None \<Rightarrow> None
      | Some (cur', st') \<Rightarrow>
          (case Invoke_body g ctx cur' st' of
             Next cur'' st'' \<Rightarrow> Some (cur'', st'')
           | Stop res \<Rightarrow> None))"
proof (induction k arbitrary: cur st)
  case 0
  show ?case by (simp split: flow.splits)
next
  case (Suc k)
  show ?case
  proof (cases "Invoke_body g ctx cur st")
    case (Next n s)
    have "iterations g ctx (Suc (Suc k)) cur st = iterations g ctx (Suc k) n s"
      using Next by simp
    also note Suc.IH [of n s]
    also have "iterations g ctx k n s = iterations g ctx (Suc k) cur st"
      using Next by simp
    finally show ?thesis .
  next
    case (Stop r)
    then show ?thesis by simp
  qed
qed

lemma iterations_None_later:
  "iterations g ctx k cur st = None \<Longrightarrow> k \<le> j \<Longrightarrow> iterations g ctx j cur st = None"
proof (induction j)
  case 0
  then show ?case by simp
next
  case (Suc j)
  show ?case
  proof (cases "k = Suc j")
    case True
    with Suc.prems show ?thesis by simp
  next
    case False
    with Suc.prems have "k \<le> j" by simp
    with Suc have "iterations g ctx j cur st = None" by simp
    then show ?thesis by (subst iterations_Suc_last) simp
  qed
qed

lemma iterations_Stop_later:
  assumes "iterations g ctx k cur st = Some (cur', st')"
    and "Invoke_body g ctx cur' st' = Stop res" and "k < j"
  shows "iterations g ctx j cur st = None"
proof -
  from assms(1,2) have "iterations g ctx (Suc k) cur st = None"
    by (subst iterations_Suc_last) simp
  moreover from assms(3) have "Suc k \<le> j" by simp
  ultimately show ?thesis by (rule iterations_None_later)
qed

lemma Invoke_reaches_Stop:
  assumes "iterations (graph r) ctx k (entryPoint (graph r)) state0 = Some (cur, st)"
    and "Invoke_body (graph r) ctx cur st = Stop res"
  shows "Invoke r ctx state0 = Some res"
  using iterations_Invoke_loop [OF assms(1)] Invoke_loop_Stop [OF assms(2)]
  by (simp add: Invoke_def)

lemma Invoke_body_step_failure:
  assumes "cur \<noteq> END" and "nodes g cur = Some node" and "Function node = Some fn"
    and "fn ctx st = (st', Some err)"
  shows "Invoke_body g ctx cur st =
    Stop (Return st' (Some (WrapError (''error in node '' @ cur @ '': '' @ Error err) err)))"
  using assms by (simp add: Invoke_body_def Errorf_error_in_node_def)

lemma Invoke_body_node_not_found:
  assumes "cur \<noteq> END" and "nodes g cur = None"
  shows "Invoke_body g ctx cur st =
    Stop (Return st (Some (WrapError (''node not found: '' @ cur) ErrNodeNotFound)))"
  using assms by (simp add: Invoke_body_def Errorf_w_s_def ErrNodeNotFound_def)

lemma Invoke_body_no_outgoing_edge:
  assumes "cur \<noteq> END" and "nodes g cur = Some node" and "Function node = Some fn"
    and "fn ctx st = (st', None)" and "\<forall>e \<in> set (edges g). From e \<noteq> cur"
  shows "Invoke_body g ctx cur st =
    Stop (Return st' (Some (WrapError (''no outgoing edge found for node: '' @ cur)
      ErrNoOutgoingEdge)))"
  using assms
  by (simp add: Invoke_body_def scan_edges_none Errorf_w_s_def ErrNoOutgoingEdge_def)

text \<open>
  The three errors that \<open>Invoke\<close> makes differ in their messages or in what they
  wrap, so the error tells which return of the loop body gave it.
\<close>

lemma Invoke_body_node_not_found_D:
  assumes "Invoke_body g ctx cur st =
    Stop (Return state (Some (WrapError (''node not found: '' @ name) ErrNodeNotFound)))"
  shows "cur = name \<and> st = state \<and> name \<noteq> END \<and> nodes g name = None"
proof (cases "cur = END")
  case True
  with assms show ?thesis by (simp add: Invoke_body_def)
next
  case False
  show ?thesis
  proof (cases "nodes g cur")
    case None
    with False assms show ?thesis
      by (simp add: Invoke_body_def Errorf_w_s_def ErrNodeNotFound_def)
  next
    case (Some node)
    show ?thesis
    proof (cases "Function node")
      case None
      with Some False assms show ?thesis by (simp add: Invoke_body_def)
    next
      case fn: (Some fn)
      obtain s e where r: "fn ctx st = (s, e)" by (cases "fn ctx st")
      show ?thesis
      proof (cases e)
        case None
        obtain c b where sc: "scan_edges (edges g) cur = (c, b)"
          by (cases "scan_edges (edges g) cur")
        with None r fn Some False assms show ?thesis
          by (cases b)
            (simp_all add: Invoke_body_def Errorf_w_s_def ErrNodeNotFound_def
              ErrNoOutgoingEdge_def)
      next
        case err: (Some err)
        with r fn Some False assms show ?thesis
          by (simp add: Invoke_body_def Errorf_error_in_node_def)
      qed
    qed
  qed
qed

subsection \<open>The sentinel under the mutators\<close>

lemma nodes_NewMessageGraph_END:
  "nodes NewMessageGraph END =
     Some \<lparr>Name = END, Function = Some (\<lambda>ctx state. (state, None))\<rparr>"
  by (simp add: NewMessageGraph_def AddNode_def)

lemma END_perform:
  "END \<in> dom (nodes g) \<Longrightarrow> END \<in> dom (nodes (perform g c))"
  by (cases c) (auto simp: AddNode_def AddEdge_def SetEntryPoint_def)

lemma END_foldl_perform:
  "END \<in> dom (nodes g) \<Longrightarrow> END \<in> dom (nodes (foldl perform g calls))"
proof (induction calls arbitrary: g)
  case Nil
  then show ?case by simp
next
  case (Cons c calls)
  from Cons.prems have "END \<in> dom (nodes (perform g c))"
    by (rule END_perform)
  then have "END \<in> dom (nodes (foldl perform (perform g c) calls))"
    by (rule Cons.IH)
  then show ?case by simp
qed

subsection \<open>Runs that never return\<close>

lemma Invoke_loop_None_iff:
  "Invoke_loop g ctx cur st = None \<longleftrightarrow>
   (\<forall>k cur' st'. iterations g ctx k cur st = Some (cur', st') \<longrightarrow>
      (\<exists>cur'' st''. Invoke_body g ctx cur' st' = Next cur'' st''))"
proof -
  have "Invoke_loop g ctx cur st = None \<longleftrightarrow> (\<forall>res. Invoke_loop g ctx cur st \<noteq> Some res)"
    by auto
  also have "\<dots> \<longleftrightarrow> (\<forall>k cur' st' res. iterations g ctx k cur st = Some (cur', st') \<longrightarrow>
      Invoke_body g ctx cur' st' \<noteq> Stop res)"
    unfolding Invoke_loop_Some_iff by blast
  also have "\<dots> \<longleftrightarrow> (\<forall>k cur' st'. iterations g ctx k cur st = Some (cur', st') \<longrightarrow>
      (\<exists>cur'' st''. Invoke_body g ctx cur' st' = Next cur'' st''))"
    by (metis flow.exhaust flow.distinct(1))
  finally show ?thesis .
qed

text \<open>A step that succeeds on a node with an edge to itself: the run never returns.\<close>

lemma Invoke_self_loop:
  assumes "name \<noteq> END" and "map_option Function (nodes g name) = Some (Some fn)"
    and "\<And>st. fn ctx st = (st, None)"
    and "find (\<lambda>e. From e = name) (edges g) = Some \<lparr>From = name, To = name\<rparr>"
  shows "Invoke_loop g ctx name state = None"
proof -
  have body: "Invoke_body g ctx name st = Next name st" for st
    using Invoke_body_success [OF assms(1,2), of ctx st st] assms(3,4)
    by (simp add: scan_edges_find)
  have "iterations g ctx k name state = Some (name, state)" for k
    by (induction k) (simp_all add: body)
  with body show ?thesis unfolding Invoke_loop_None_iff by simp
qed

section \<open>The claims\<close>

text \<open>
  C1. On a linear chain of nodes from the entry point to \<open>END\<close> with no branching
  edges, whose steps succeed one after the other on the threaded state, \<open>Invoke\<close>
  returns, with no error, the state that applying the steps in the order of the
  edges gives. The graph of the test "Simple graph" (\<open>node1\<close> appends "Node 1",
  \<open>node2\<close> appends "Node 2", edges \<open>node1\<close> to \<open>node2\<close> and \<open>node2\<close> to \<open>END\<close>,
  entry point \<open>node1\<close>) compiles, and on the input ["Input"] it returns
  ["Input", "Node 1", "Node 2"] and no error.
\<close>

theorem C1_Invoke_linear_chain:
  assumes "linear_chain (graph r) (entryPoint (graph r)) chain"
    and "steps_in_order ctx (map snd chain) state = (state', None)"
  shows "Invoke r ctx state = Some (Return state' None)"
  unfolding Invoke_def using assms by (rule Invoke_loop_linear_chain)

theorem C1_simple_graph_witness:
  "Compile simple_graph = Inr \<lparr>graph = simple_graph\<rparr> \<and>
   linear_chain simple_graph (entryPoint simple_graph)
     [(''node1'', \<lambda>ctx state. (state @ [''Node 1''], None)),
      (''node2'', \<lambda>ctx state. (state @ [''Node 2''], None))] \<and>
   steps_in_order ()
     [\<lambda>ctx state. (state @ [''Node 1''], None), \<lambda>ctx state. (state @ [''Node 2''], None)]
     [''Input''] = ([''Input'', ''Node 1'', ''Node 2''], None) \<and>
   Invoke \<lparr>graph = simple_graph\<rparr> () [''Input''] =
     Some (Return [''Input'', ''Node 1'', ''Node 2''] None)"
proof -
  let ?chain = "[(''node1'', \<lambda>(ctx::unit) state. (state @ [''Node 1''], None)),
      (''node2'', \<lambda>ctx state. (state @ [''Node 2''], None))]"
  have c: "Compile simple_graph = Inr \<lparr>graph = simple_graph\<rparr>"
    by (simp add: Compile_def simple_graph_def SetEntryPoint_def)
  have l: "linear_chain (graph \<lparr>graph = simple_graph\<rparr>)
      (entryPoint (graph \<lparr>graph = simple_graph\<rparr>)) ?chain"
    by (simp add: simple_graph_def SetEntryPoint_def AddEdge_def AddNode_def
        NewMessageGraph_def END_def)
  have s: "steps_in_order () (map snd ?chain) [''Input''] =
      ([''Input'', ''Node 1'', ''Node 2''], None)"
    by simp
  have i: "Invoke \<lparr>graph = simple_graph\<rparr> () [''Input''] =
      Some (Return [''Input'', ''Node 1'', ''Node 2''] None)"
    using l s by (rule C1_Invoke_linear_chain)
  from l have l': "linear_chain simple_graph (entryPoint simple_graph) ?chain" by simp
  from s have s': "steps_in_order ()
     [\<lambda>ctx state. (state @ [''Node 1''], None), \<lambda>ctx state. (state @ [''Node 2''], None)]
     [''Input''] = ([''Input'', ''Node 1'', ''Node 2''], None)"
    by simp
  from c l' s' i show ?thesis by (intro conjI)
qed

text \<open>
  C2. \<open>Compile\<close> looks at the entry point only. On a graph whose entry point is
  the empty string, which is what it is as long as \<open>SetEntryPoint\<close> was never
  called, whatever nodes and edges were registered, \<open>Compile\<close> fails with
  \<open>ErrEntryPointNotSet\<close>. On every graph with a non-empty entry point it
  succeeds and the runnable holds that graph: nothing about nodes, edges,
  reachability or cycles is checked.
\<close>

theorem C2_Compile_entry_point:
  "(entryPoint g = [] \<longrightarrow> Compile g = Inl ErrEntryPointNotSet) \<and>
   (entryPoint g \<noteq> [] \<longrightarrow> Compile g = Inr \<lparr>graph = g\<rparr>) \<and>
   ((\<forall>c \<in> set calls. \<not> sets_entry_point c) \<longrightarrow>
      Compile (build calls) = Inl ErrEntryPointNotSet)"
  by (simp add: Compile_def build_def entryPoint_foldl_perform entryPoint_NewMessageGraph)

text \<open>
  The graph of the test "Entry point not set", and a graph with a cycle, no node for either
  end of its edges and an entry point that names no node, which compiles.
\<close>

theorem C2_Compile_witness:
  "entry_point_not_set_graph =
     build [Call_AddNode ''node1'' (Some (\<lambda>ctx state. (state, None)))] \<and>
   entryPoint entry_point_not_set_graph = [] \<and>
   Compile entry_point_not_set_graph = Inl (ErrorString ''entry point not set'') \<and>
   Compile (build [Call_AddNode ''node1'' (Some (\<lambda>(ctx::unit) (state::string list).
       (state, None)))]) = Inl (ErrorString ''entry point not set'') \<and>
   Compile (SetEntryPoint (AddEdge (AddEdge (NewMessageGraph :: (unit, nat) MessageGraph)
       ''a'' ''b'') ''b'' ''a'') ''missing'') =
     Inr \<lparr>graph = SetEntryPoint (AddEdge (AddEdge NewMessageGraph
       ''a'' ''b'') ''b'' ''a'') ''missing''\<rparr>"
proof -
  let ?calls = "[Call_AddNode ''node1''
    (Some (\<lambda>(ctx::unit) (state::string list). (state, None)))]"
  let ?g = "SetEntryPoint (AddEdge (AddEdge (NewMessageGraph :: (unit, nat) MessageGraph)
       ''a'' ''b'') ''b'' ''a'') ''missing''"
  have b: "entry_point_not_set_graph = build ?calls"
    by (simp add: entry_point_not_set_graph_def build_def)
  have e: "entryPoint entry_point_not_set_graph = []"
    by (simp add: entry_point_not_set_graph_def AddNode_def NewMessageGraph_def)
  have n: "\<forall>c \<in> set ?calls. \<not> sets_entry_point c" by simp
  have s: "entryPoint ?g \<noteq> []" by (simp add: SetEntryPoint_def)
  have c1: "Compile entry_point_not_set_graph = Inl (ErrorString ''entry point not set'')"
    using C2_Compile_entry_point [of entry_point_not_set_graph ?calls] e
    by (simp add: ErrEntryPointNotSet_def)
  have c2: "Compile ?g = Inr \<lparr>graph = ?g\<rparr>"
    using C2_Compile_entry_point [of ?g ?calls] s by blast
  have c3: "Compile (build ?calls) = Inl (ErrorString ''entry point not set'')"
    using C2_Compile_entry_point [of ?g ?calls] n
    by (simp add: ErrEntryPointNotSet_def)
  from b e c1 c2 c3 show ?thesis by blast
qed

text \<open>
  C3. The loop tests \<open>currentNode = END\<close> before it looks a node up or calls a
  step: at \<open>END\<close> it returns the state it holds and no error, whatever the graph
  has under that name. So the step registered for \<open>END\<close> is never called, and
  for every graph, context and input the result of \<open>Invoke\<close> is the same after
  \<open>END\<close> has been registered again with any other step (one that fails, one
  that changes the state, or nil).
\<close>

theorem C3_sentinel_step_never_run:
  "Invoke_loop g ctx END state = Some (Return state None) \<and>
   Invoke \<lparr>graph = AddNode g END fn\<rparr> ctx state = Invoke \<lparr>graph = g\<rparr> ctx state"
proof
  have "Invoke_body g ctx END state = Stop (Return state None)"
    by (simp add: Invoke_body_def)
  then show "Invoke_loop g ctx END state = Some (Return state None)"
    by (rule Invoke_loop_Stop)
next
  have "Invoke_loop (AddNode g END fn) ctx cur state = Invoke_loop g ctx cur state" for cur
    by (rule Invoke_loop_cong) (rule Invoke_body_AddNode_END)
  moreover have "entryPoint (AddNode g END fn) = entryPoint g"
    by (simp add: AddNode_def)
  ultimately show "Invoke \<lparr>graph = AddNode g END fn\<rparr> ctx state = Invoke \<lparr>graph = g\<rparr> ctx state"
    by (simp add: Invoke_def)
qed

text \<open>
  The graph of the test "Simple graph" with \<open>END\<close> registered again, with a step
  that fails: the run is the one of the test.
\<close>

theorem C3_failing_sentinel_witness:
  "Invoke \<lparr>graph = AddNode simple_graph END
       (Some (\<lambda>ctx state. ([], Some (ErrorString ''never called''))))\<rparr> () [''Input''] =
     Some (Return [''Input'', ''Node 1'', ''Node 2''] None)"
proof -
  have "Invoke \<lparr>graph = simple_graph\<rparr> () [''Input''] =
      Some (Return [''Input'', ''Node 1'', ''Node 2''] None)"
    by (simp add: simple_graph_def Invoke_def Invoke_loop.simps Invoke_body_def
        AddNode_def AddEdge_def SetEntryPoint_def NewMessageGraph_def END_def)
  with C3_sentinel_step_never_run [of simple_graph "()" "[''Input'']"
      "Some (\<lambda>ctx state. ([], Some (ErrorString ''never called'')))"]
  show ?thesis by simp
qed

text \<open>
  C4. When the execution of \<open>Invoke\<close> reaches, after some number of passes of
  the loop, a node whose step returns an error, \<open>Invoke\<close> returns at once: the
  state is the value the step returned with its error, the error wraps the
  step's error under the message "error in node <name>: <message of the step's
  error>", and no further pass of the loop begins, so no further step is called.
\<close>

theorem C4_step_failure:
  assumes "iterations (graph r) ctx k (entryPoint (graph r)) state0 = Some (name, state)"
    and "name \<noteq> END"
    and "nodes (graph r) name = Some node"
    and "Function node = Some fn"
    and "fn ctx state = (state', Some err)"
  shows "Invoke r ctx state0 =
      Some (Return state'
        (Some (WrapError (''error in node '' @ name @ '': '' @ Error err) err))) \<and>
    (\<forall>j > k. iterations (graph r) ctx j (entryPoint (graph r)) state0 = None)"
proof -
  have stop: "Invoke_body (graph r) ctx name state =
      Stop (Return state'
        (Some (WrapError (''error in node '' @ name @ '': '' @ Error err) err)))"
    using assms(2-5) by (rule Invoke_body_step_failure)
  from assms(1) stop have "Invoke r ctx state0 =
      Some (Return state'
        (Some (WrapError (''error in node '' @ name @ '': '' @ Error err) err)))"
    by (rule Invoke_reaches_Stop)
  moreover have "iterations (graph r) ctx j (entryPoint (graph r)) state0 = None"
    if "k < j" for j
    using assms(1) stop that by (rule iterations_Stop_later)
  ultimately show ?thesis by blast
qed

text \<open>
  The graph of the test "Error in node function": the step of \<open>node1\<close> returns
  nil and the error "node error"; the state that comes back is the step's and not
  the input, and the edge from \<open>node1\<close> is not followed.
\<close>

theorem C4_error_in_node_witness:
  "iterations error_in_node_graph () 0 (entryPoint error_in_node_graph) [''Input''] =
     Some (''node1'', [''Input'']) \<and>
   Invoke \<lparr>graph = error_in_node_graph\<rparr> () [''Input''] =
     Some (Return []
       (Some (WrapError ''error in node node1: node error'' (ErrorString ''node error'')))) \<and>
   iterations error_in_node_graph () 1 (entryPoint error_in_node_graph) [''Input''] = None"
proof -
  let ?r = "\<lparr>graph = error_in_node_graph\<rparr>"
  let ?fn = "\<lambda>(ctx::unit) (state::string list).
    ([]::string list, Some (ErrorString ''node error''))"
  have e: "entryPoint error_in_node_graph = ''node1''"
    by (simp add: error_in_node_graph_def SetEntryPoint_def)
  have a1: "iterations (graph ?r) () 0 (entryPoint (graph ?r)) [''Input''] =
      Some (''node1'', [''Input''])"
    by (simp add: e)
  have a2: "''node1'' \<noteq> END" by (simp add: END_def)
  have a3: "nodes (graph ?r) ''node1'' = Some \<lparr>Name = ''node1'', Function = Some ?fn\<rparr>"
    by (simp add: error_in_node_graph_def SetEntryPoint_def AddEdge_def AddNode_def)
  have a4: "Function \<lparr>Name = ''node1'', Function = Some ?fn\<rparr> = Some ?fn" by simp
  have a5: "?fn () [''Input''] = ([], Some (ErrorString ''node error''))" by simp
  note c = C4_step_failure [where fn = ?fn, OF a1 a2 a3 a4 a5]
  have g: "graph ?r = error_in_node_graph" by simp
  have i: "Invoke ?r () [''Input''] =
     Some (Return []
       (Some (WrapError ''error in node node1: node error'' (ErrorString ''node error''))))"
    using c [THEN conjunct1] by simp
  have n: "iterations (graph ?r) () 1 (entryPoint (graph ?r)) [''Input''] = None"
    by (rule c [THEN conjunct2, rule_format]) simp
  from a1 i n show ?thesis unfolding g by (intro conjI)
qed

text \<open>
  C5. An edge may name a target that has no node: \<open>AddEdge\<close> appends it all the
  same and \<open>Compile\<close> succeeds all the same when the entry point is set. The
  failure comes in \<open>Invoke\<close>, and exactly when the loop reaches a name other
  than \<open>END\<close> that has no node, be it the entry point or the target of an
  edge: \<open>Invoke\<close> then returns the state the loop holds at that moment and the
  error "node not found: <name>" wrapping \<open>ErrNodeNotFound\<close>; and whenever
  \<open>Invoke\<close> returns this error with a state, the loop had reached this name
  with this state, and the name has no node.
\<close>

theorem C5_node_not_found:
  "edges (AddEdge g from to) = edges g @ [\<lparr>From = from, To = to\<rparr>] \<and>
   (entryPoint g \<noteq> [] \<longrightarrow>
      Compile (AddEdge g from to) = Inr \<lparr>graph = AddEdge g from to\<rparr>) \<and>
   (iterations g ctx k (entryPoint g) state0 = Some (name, state) \<and>
      name \<noteq> END \<and> nodes g name = None \<longrightarrow>
      Invoke \<lparr>graph = g\<rparr> ctx state0 =
        Some (Return state (Some (WrapError (''node not found: '' @ name) ErrNodeNotFound)))) \<and>
   (Invoke \<lparr>graph = g\<rparr> ctx state0 =
        Some (Return state (Some (WrapError (''node not found: '' @ name) ErrNodeNotFound)))
      \<longrightarrow> (\<exists>k. iterations g ctx k (entryPoint g) state0 = Some (name, state) \<and>
             name \<noteq> END \<and> nodes g name = None))"
proof (intro conjI impI)
  show "edges (AddEdge g from to) = edges g @ [\<lparr>From = from, To = to\<rparr>]"
    by (simp add: AddEdge_def)
next
  assume "entryPoint g \<noteq> []"
  then show "Compile (AddEdge g from to) = Inr \<lparr>graph = AddEdge g from to\<rparr>"
    by (simp add: Compile_def AddEdge_def)
next
  assume a: "iterations g ctx k (entryPoint g) state0 = Some (name, state) \<and>
      name \<noteq> END \<and> nodes g name = None"
  then have "Invoke_body (graph \<lparr>graph = g\<rparr>) ctx name state =
      Stop (Return state (Some (WrapError (''node not found: '' @ name) ErrNodeNotFound)))"
    by (simp add: Invoke_body_node_not_found)
  moreover from a have
    "iterations (graph \<lparr>graph = g\<rparr>) ctx k (entryPoint (graph \<lparr>graph = g\<rparr>)) state0 =
      Some (name, state)"
    by simp
  ultimately show "Invoke \<lparr>graph = g\<rparr> ctx state0 =
      Some (Return state (Some (WrapError (''node not found: '' @ name) ErrNodeNotFound)))"
    by (rule Invoke_reaches_Stop [rotated])
next
  assume "Invoke \<lparr>graph = g\<rparr> ctx state0 =
      Some (Return state (Some (WrapError (''node not found: '' @ name) ErrNodeNotFound)))"
  then have "Invoke_loop g ctx (entryPoint g) state0 =
      Some (Return state (Some (WrapError (''node not found: '' @ name) ErrNodeNotFound)))"
    by (simp add: Invoke_def)
  then have "\<exists>k cur st. iterations g ctx k (entryPoint g) state0 = Some (cur, st) \<and>
      Invoke_body g ctx cur st =
      Stop (Return state (Some (WrapError (''node not found: '' @ name) ErrNodeNotFound)))"
    by (rule Invoke_loop_Some_D)
  then obtain k cur st where it: "iterations g ctx k (entryPoint g) state0 = Some (cur, st)"
    and stop: "Invoke_body g ctx cur st =
      Stop (Return state (Some (WrapError (''node not found: '' @ name) ErrNodeNotFound)))"
    by (elim exE conjE)
  from stop have "cur = name \<and> st = state \<and> name \<noteq> END \<and> nodes g name = None"
    by (rule Invoke_body_node_not_found_D)
  with it show "\<exists>k. iterations g ctx k (entryPoint g) state0 = Some (name, state) \<and>
      name \<noteq> END \<and> nodes g name = None"
    by blast
qed

text \<open>
  The graph of the test "Node not found": the edge from \<open>node1\<close> leads to
  \<open>node2\<close>, which has no node; the graph compiles, one pass brings the loop to \<open>node2\<close>, and \<open>Invoke\<close>
  returns the error of the test. In the second graph the entry point itself has
  no node.
\<close>

theorem C5_node_not_found_witness:
  "Compile node_not_found_graph = Inr \<lparr>graph = node_not_found_graph\<rparr> \<and>
   nodes node_not_found_graph ''node2'' = None \<and>
   iterations node_not_found_graph () 1 (entryPoint node_not_found_graph) [''Input''] =
     Some (''node2'', [''Input'']) \<and>
   Invoke \<lparr>graph = node_not_found_graph\<rparr> () [''Input''] =
     Some (Return [''Input'']
       (Some (WrapError ''node not found: node2'' (ErrorString ''node not found'')))) \<and>
   Invoke \<lparr>graph = SetEntryPoint NewMessageGraph ''nowhere''\<rparr> () [''Input''] =
     Some (Return [''Input'']
       (Some (WrapError ''node not found: nowhere'' (ErrorString ''node not found'')))) \<and>
   (\<exists>k. iterations node_not_found_graph () k (entryPoint node_not_found_graph) [''Input''] =
     Some (''node2'', [''Input'']))"
proof -
  let ?g = "AddNode NewMessageGraph ''node1''
    (Some (\<lambda>(ctx::unit) (state::string list). (state, None)))"
  let ?h = "SetEntryPoint ?g ''node1''"
  let ?n = "SetEntryPoint (NewMessageGraph :: (unit, string list) MessageGraph) ''nowhere''"
  have swap: "node_not_found_graph = AddEdge ?h ''node1'' ''node2''"
    by (simp add: node_not_found_graph_def AddEdge_def SetEntryPoint_def)
  have "entryPoint ?h \<noteq> []" by (simp add: SetEntryPoint_def)
  with C5_node_not_found [of ?h "''node1''" "''node2''"]
  have c: "Compile node_not_found_graph = Inr \<lparr>graph = node_not_found_graph\<rparr>"
    unfolding swap by blast
  have e: "entryPoint node_not_found_graph = ''node1''"
    by (simp add: node_not_found_graph_def SetEntryPoint_def)
  have n: "nodes node_not_found_graph ''node2'' = None"
    by (simp add: node_not_found_graph_def SetEntryPoint_def AddEdge_def AddNode_def
        NewMessageGraph_def END_def)
  have i: "iterations node_not_found_graph () 1 (entryPoint node_not_found_graph)
      [''Input''] = Some (''node2'', [''Input''])"
    by (simp add: e node_not_found_graph_def SetEntryPoint_def AddEdge_def AddNode_def
        NewMessageGraph_def END_def Invoke_body_def)
  have n2: "''node2'' \<noteq> END" by (simp add: END_def)
  note t = C5_node_not_found [of node_not_found_graph _ _ "()" 1 "[''Input'']"
      "''node2''" "[''Input'']"]
  from t i n2 n have r: "Invoke \<lparr>graph = node_not_found_graph\<rparr> () [''Input''] =
     Some (Return [''Input''] (Some (WrapError (''node not found: '' @ ''node2'')
       ErrNodeNotFound)))"
    by blast
  with t have ex: "\<exists>k. iterations node_not_found_graph () k
      (entryPoint node_not_found_graph) [''Input''] = Some (''node2'', [''Input''])"
    by blast
  have i0: "iterations ?n () 0 (entryPoint ?n) [''Input''] = Some (''nowhere'', [''Input''])"
    by (simp add: SetEntryPoint_def)
  have n0: "''nowhere'' \<noteq> END \<and> nodes ?n ''nowhere'' = None"
    by (simp add: SetEntryPoint_def AddNode_def NewMessageGraph_def END_def)
  from C5_node_not_found [of ?n _ _ "()" 0 "[''Input'']" "''nowhere''" "[''Input'']"] i0 n0
  have r0: "Invoke \<lparr>graph = ?n\<rparr> () [''Input''] =
     Some (Return [''Input''] (Some (WrapError (''node not found: '' @ ''nowhere'')
       ErrNodeNotFound)))"
    by blast
  from c n i r r0 ex show ?thesis
    by (simp add: ErrNodeNotFound_def)
qed

text \<open>
  C6. When the execution of \<open>Invoke\<close> reaches a node other than \<open>END\<close> whose
  step succeeds, and no edge of the graph starts at this node, \<open>Invoke\<close>
  returns the state the step gave and the error "no outgoing edge found for
  node: <name>" wrapping \<open>ErrNoOutgoingEdge\<close>. The graph of the test "No outgoing
  edge" has the one node \<open>node1\<close>, no edge and the entry point \<open>node1\<close>.
\<close>

theorem C6_no_outgoing_edge:
  assumes "iterations (graph r) ctx k (entryPoint (graph r)) state0 = Some (name, state)"
    and "name \<noteq> END"
    and "nodes (graph r) name = Some node"
    and "Function node = Some fn"
    and "fn ctx state = (state', None)"
    and "\<forall>e \<in> set (edges (graph r)). From e \<noteq> name"
  shows "Invoke r ctx state0 =
      Some (Return state'
        (Some (WrapError (''no outgoing edge found for node: '' @ name) ErrNoOutgoingEdge)))"
proof -
  have "Invoke_body (graph r) ctx name state =
      Stop (Return state'
        (Some (WrapError (''no outgoing edge found for node: '' @ name) ErrNoOutgoingEdge)))"
    using assms(2-6) by (rule Invoke_body_no_outgoing_edge)
  with assms(1) show ?thesis by (rule Invoke_reaches_Stop)
qed

theorem C6_no_outgoing_edge_witness:
  "edges no_outgoing_edge_graph = [] \<and>
   entryPoint no_outgoing_edge_graph = ''node1'' \<and>
   Compile no_outgoing_edge_graph = Inr \<lparr>graph = no_outgoing_edge_graph\<rparr> \<and>
   Invoke \<lparr>graph = no_outgoing_edge_graph\<rparr> () [''Input''] =
     Some (Return [''Input'']
       (Some (WrapError ''no outgoing edge found for node: node1''
         (ErrorString ''no outgoing edge found for node''))))"
proof -
  let ?r = "\<lparr>graph = no_outgoing_edge_graph\<rparr>"
  let ?fn = "\<lambda>(ctx::unit) (state::string list). (state, None::go_error option)"
  have ed: "edges no_outgoing_edge_graph = []"
    by (simp add: no_outgoing_edge_graph_def SetEntryPoint_def AddNode_def
        NewMessageGraph_def)
  have e: "entryPoint no_outgoing_edge_graph = ''node1''"
    by (simp add: no_outgoing_edge_graph_def SetEntryPoint_def)
  have c: "Compile no_outgoing_edge_graph = Inr \<lparr>graph = no_outgoing_edge_graph\<rparr>"
    by (simp add: Compile_def e)
  have a1: "iterations (graph ?r) () 0 (entryPoint (graph ?r)) [''Input''] =
      Some (''node1'', [''Input''])"
    by (simp add: e)
  have a2: "''node1'' \<noteq> END" by (simp add: END_def)
  have a3: "nodes (graph ?r) ''node1'' = Some \<lparr>Name = ''node1'', Function = Some ?fn\<rparr>"
    by (simp add: no_outgoing_edge_graph_def SetEntryPoint_def AddNode_def)
  have a4: "Function \<lparr>Name = ''node1'', Function = Some ?fn\<rparr> = Some ?fn" by simp
  have a5: "?fn () [''Input''] = ([''Input''], None)" by simp
  have a6: "\<forall>e \<in> set (edges (graph ?r)). From e \<noteq> ''node1''" by (simp add: ed)
  from C6_no_outgoing_edge [where fn = ?fn, OF a1 a2 a3 a4 a5 a6]
  have "Invoke ?r () [''Input''] =
     Some (Return [''Input'']
       (Some (WrapError ''no outgoing edge found for node: node1''
         (ErrorString ''no outgoing edge found for node''))))"
    by (simp add: ErrNoOutgoingEdge_def)
  with ed e c show ?thesis by (intro conjI)
qed

text \<open>
  C7. The scan of the edges goes through them in the order of their declaration
  and stops at the first edge that starts at the current node: a pass of the
  loop whose step succeeded goes on to the target of that edge. So an edge
  appended for a node that already has an outgoing edge is never taken: for every
  context and input, \<open>Invoke\<close> gives the same result (or runs forever all the
  same) with and without it.
\<close>

theorem C7_first_matching_edge:
  "scan_edges (edges g) currentNode =
     (case find (\<lambda>e. From e = currentNode) (edges g) of
        Some e \<Rightarrow> (To e, True)
      | None \<Rightarrow> (currentNode, False)) \<and>
   (currentNode \<noteq> END \<and> map_option Function (nodes g currentNode) = Some (Some fn) \<and>
      fn ctx state = (state', None) \<and>
      find (\<lambda>e. From e = currentNode) (edges g) = Some edge \<longrightarrow>
      Invoke_body g ctx currentNode state = Next (To edge) state') \<and>
   ((\<exists>e \<in> set (edges g). From e = from) \<longrightarrow>
      Invoke \<lparr>graph = AddEdge g from to\<rparr> ctx state0 = Invoke \<lparr>graph = g\<rparr> ctx state0)"
proof (intro conjI impI)
  show "scan_edges (edges g) currentNode =
     (case find (\<lambda>e. From e = currentNode) (edges g) of
        Some e \<Rightarrow> (To e, True)
      | None \<Rightarrow> (currentNode, False))"
    by (rule scan_edges_find)
next
  assume a: "currentNode \<noteq> END \<and>
      map_option Function (nodes g currentNode) = Some (Some fn) \<and>
      fn ctx state = (state', None) \<and>
      find (\<lambda>e. From e = currentNode) (edges g) = Some edge"
  then have "scan_edges (edges g) currentNode = (To edge, True)"
    by (simp add: scan_edges_find)
  with a Invoke_body_success [of currentNode g fn ctx state state']
  show "Invoke_body g ctx currentNode state = Next (To edge) state'"
    by simp
next
  assume a: "\<exists>e \<in> set (edges g). From e = from"
  have "Invoke_loop (AddEdge g from to) ctx cur state0 = Invoke_loop g ctx cur state0" for cur
    by (rule Invoke_loop_cong) (rule Invoke_body_AddEdge [OF a])
  moreover have "entryPoint (AddEdge g from to) = entryPoint g"
    by (simp add: AddEdge_def)
  ultimately show
    "Invoke \<lparr>graph = AddEdge g from to\<rparr> ctx state0 = Invoke \<lparr>graph = g\<rparr> ctx state0"
    by (simp add: Invoke_def)
qed

text \<open>
  The graph of the test "Simple graph" with one more edge, from \<open>node1\<close> to
  \<open>END\<close>: the first edge from \<open>node1\<close> still leads to \<open>node2\<close>, and the run is
  the one of the test.
\<close>

theorem C7_dead_edge_witness:
  "find (\<lambda>e. From e = ''node1'') (edges (AddEdge simple_graph ''node1'' END)) =
     Some \<lparr>From = ''node1'', To = ''node2''\<rparr> \<and>
   Invoke_body (AddEdge simple_graph ''node1'' END) () ''node1'' [''Input''] =
     Next ''node2'' [''Input'', ''Node 1''] \<and>
   Invoke \<lparr>graph = AddEdge simple_graph ''node1'' END\<rparr> () [''Input''] =
     Some (Return [''Input'', ''Node 1'', ''Node 2''] None)"
proof -
  let ?g = "AddEdge simple_graph ''node1'' END"
  let ?fn = "\<lambda>(ctx::unit) (state::string list). (state @ [''Node 1''], None::go_error option)"
  have ed: "edges simple_graph =
      [\<lparr>From = ''node1'', To = ''node2''\<rparr>, \<lparr>From = ''node2'', To = END\<rparr>]"
    by (simp add: simple_graph_def SetEntryPoint_def AddEdge_def AddNode_def
        NewMessageGraph_def)
  have f: "find (\<lambda>e. From e = ''node1'') (edges ?g) = Some \<lparr>From = ''node1'', To = ''node2''\<rparr>"
    by (simp add: ed AddEdge_def)
  have n: "''node1'' \<noteq> END \<and> map_option Function (nodes ?g ''node1'') = Some (Some ?fn) \<and>
      ?fn () [''Input''] = ([''Input'', ''Node 1''], None)"
    by (simp add: simple_graph_def SetEntryPoint_def AddEdge_def AddNode_def
        NewMessageGraph_def END_def)
  have ex: "\<exists>e \<in> set (edges simple_graph). From e = ''node1''"
    by (simp add: ed)
  have run: "Invoke \<lparr>graph = simple_graph\<rparr> () [''Input''] =
      Some (Return [''Input'', ''Node 1'', ''Node 2''] None)"
    by (simp add: simple_graph_def Invoke_def Invoke_loop.simps Invoke_body_def
        AddNode_def AddEdge_def SetEntryPoint_def NewMessageGraph_def END_def)
  note t1 = C7_first_matching_edge [where g = ?g and currentNode = "''node1''" and fn = ?fn
      and ctx = "()" and state = "[''Input'']" and state' = "[''Input'', ''Node 1'']"
      and edge = "\<lparr>From = ''node1'', To = ''node2''\<rparr>", THEN conjunct2, THEN conjunct1]
  from t1 f n have b: "Invoke_body ?g () ''node1'' [''Input''] =
      Next ''node2'' [''Input'', ''Node 1'']"
    by simp
  note t2 = C7_first_matching_edge [where g = simple_graph and ctx = "()"
      and state0 = "[''Input'']" and ?from = "''node1''" and to = END,
      THEN conjunct2, THEN conjunct2]
  from t2 ex run have "Invoke \<lparr>graph = ?g\<rparr> () [''Input''] =
      Some (Return [''Input'', ''Node 1'', ''Node 2''] None)"
    by simp
  with f b show ?thesis by (intro conjI)
qed


text \<open>
  C9. The graph that \<open>NewMessageGraph\<close> returns has, under \<open>END\<close>, the node of
  that name whose step returns its state and no error. After any sequence of
  calls of \<open>AddNode\<close>, \<open>AddEdge\<close> and \<open>SetEntryPoint\<close> on it the name \<open>END\<close> is
  still in the node map: a call can replace its node and cannot remove it.
\<close>

theorem C9_sentinel_registered:
  "nodes NewMessageGraph END =
     Some \<lparr>Name = END, Function = Some (\<lambda>ctx state. (state, None))\<rparr> \<and>
   END \<in> dom (nodes (build calls)) \<and>
   nodes (perform (build calls) (Call_AddNode END fn)) END =
     Some \<lparr>Name = END, Function = fn\<rparr>"
proof (intro conjI)
  show "nodes NewMessageGraph END =
      Some \<lparr>Name = END, Function = Some (\<lambda>ctx state. (state, None))\<rparr>"
    by (rule nodes_NewMessageGraph_END)
next
  have "END \<in> dom (nodes NewMessageGraph)"
    by (rule domI) (rule nodes_NewMessageGraph_END)
  then show "END \<in> dom (nodes (build calls))"
    unfolding build_def by (rule END_foldl_perform)
next
  show "nodes (perform (build calls) (Call_AddNode END fn)) END =
      Some \<lparr>Name = END, Function = fn\<rparr>"
    by (simp add: AddNode_def)
qed

text \<open>
  C10. \<open>Compile\<close> only compares the stored entry point with the empty string,
  so setting the entry point to the empty string is the same as never setting
  it: after \<open>SetEntryPoint\<close> with the empty string, on any graph, also one
  whose entry point had been set to a name before, \<open>Compile\<close> fails with
  \<open>ErrEntryPointNotSet\<close>; and on the new graph this call changes nothing.
\<close>

theorem C10_empty_entry_point:
  "Compile (SetEntryPoint g []) = Inl ErrEntryPointNotSet \<and>
   Compile (SetEntryPoint (SetEntryPoint g name) []) = Inl ErrEntryPointNotSet \<and>
   SetEntryPoint NewMessageGraph [] = NewMessageGraph \<and>
   Compile (SetEntryPoint g []) = Compile NewMessageGraph"
  by (simp add: Compile_def SetEntryPoint_def NewMessageGraph_def AddNode_def)

end
